theory Spec2Isabelle
  imports Main "HOL-Library.Char_ord" "HOL-Library.List_Lexorder" "HOL-Library.Product_Lexorder"
begin

section \<open>The backing store\<close>

text \<open>
  The broker keeps all of its state in a Redis namespace. Each key of the namespace is
  a component of the record \<open>state\<close> below, and each Redis command the broker issues is a
  function on that component.

  Numbers are integers (millisecond timestamps, priorities, counters); identifiers and
  payloads are strings. Store failures, logging and the broker's own event emission are
  outside the model: every command succeeds.
\<close>

subsection \<open>Lists: \<open>rpush\<close>, \<open>lpop\<close>\<close>

definition rpush :: "string list \<Rightarrow> string \<Rightarrow> string list" where
  "rpush l v = l @ [v]"

definition lpop :: "string list \<Rightarrow> (string \<times> string list) option" where
  "lpop l = (case l of [] \<Rightarrow> None | x # xs \<Rightarrow> Some (x, xs))"

subsection \<open>Hashes with enumeration: \<open>hset\<close>, \<open>hdel\<close>, \<open>hgetall\<close>\<close>

type_synonym hash = "(string \<times> int) list"

fun hset :: "hash \<Rightarrow> string \<Rightarrow> int \<Rightarrow> hash" where
  "hset [] k v = [(k, v)]"
| "hset ((k', v') # h) k v = (if k' = k then (k, v) # h else (k', v') # hset h k v)"

definition hdel :: "hash \<Rightarrow> string \<Rightarrow> hash" where
  "hdel h k = filter (\<lambda>(k', v). k' \<noteq> k) h"

definition hgetall :: "hash \<Rightarrow> (string \<times> int) list" where
  "hgetall h = h"

subsection \<open>Counters: \<open>hincrby\<close>\<close>

definition counter :: "(string \<rightharpoonup> int) \<Rightarrow> string \<Rightarrow> int" where
  "counter m f = (case m f of None \<Rightarrow> 0 | Some v \<Rightarrow> v)"

definition hincrby :: "(string \<rightharpoonup> int) \<Rightarrow> string \<Rightarrow> int \<Rightarrow> (string \<rightharpoonup> int)" where
  "hincrby m f d = m(f \<mapsto> counter m f + d)"

subsection \<open>Sorted sets: \<open>zadd\<close>, \<open>zpopmin\<close>, \<open>zrangebyscore\<close>, \<open>zrem\<close>\<close>

text \<open>
  A sorted set is the list of its (score, member) pairs in the order Redis keeps them:
  ascending by score, members of equal score in lexicographic order. A member occurs
  once; adding it again replaces its score.
\<close>

type_synonym zset = "(int \<times> string) list"

definition zrem :: "zset \<Rightarrow> string \<Rightarrow> zset" where
  "zrem z m = filter (\<lambda>(sc, m'). m' \<noteq> m) z"

definition zadd :: "zset \<Rightarrow> int \<Rightarrow> string \<Rightarrow> zset" where
  "zadd z sc m = insort (sc, m) (zrem z m)"

definition zpopmin :: "zset \<Rightarrow> ((int \<times> string) \<times> zset) option" where
  "zpopmin z = (case z of [] \<Rightarrow> None | x # xs \<Rightarrow> Some (x, xs))"

definition zrangebyscore :: "zset \<Rightarrow> int \<Rightarrow> int \<Rightarrow> string list" where
  "zrangebyscore z lo hi = map snd (filter (\<lambda>(sc, m). lo \<le> sc \<and> sc \<le> hi) z)"

definition zmembers :: "zset \<Rightarrow> string set" where
  "zmembers z = snd ` set z"

definition zset_ok :: "zset \<Rightarrow> bool" where
  "zset_ok z \<longleftrightarrow> sorted z \<and> distinct (map snd z)"

section \<open>Job records and the queue namespace\<close>

datatype job_status = StPending | StRetrying | StProcessing | StCompleted | StFailed

record job =
  job_id :: string
  job_data :: string
  job_priority :: int
  attempts :: nat
  maxRetries :: int
  createdAt :: int
  status :: job_status
  completedAt :: "int option"
  result :: "string option"
  lastError :: "string option"
  failedAt :: "int option"

record state =
  jobs :: "string \<rightharpoonup> job"
  pending :: "string list"
  priority :: zset
  delayed :: zset
  processing :: hash
  completed :: "string list"
  failed :: "string list"
  stats :: "string \<rightharpoonup> int"

definition empty_store :: state where
  "empty_store = \<lparr>jobs = Map.empty, pending = [], priority = [], delayed = [],
     processing = [], completed = [], failed = [], stats = Map.empty\<rparr>"

section \<open>DistributedQueue\<close>

subsection \<open>Constructor options and JavaScript's \<open>||\<close>\<close>

text \<open>
  \<open>a || b\<close> yields \<open>b\<close> when \<open>a\<close> is undefined, zero or the empty string.
\<close>

definition js_or :: "int option \<Rightarrow> int \<Rightarrow> int" where
  "js_or a b = (case a of None \<Rightarrow> b | Some v \<Rightarrow> if v = 0 then b else v)"

definition js_or_str :: "string option \<Rightarrow> string \<Rightarrow> string" where
  "js_or_str a b = (case a of None \<Rightarrow> b | Some v \<Rightarrow> if v = [] then b else v)"

record queue_options =
  qo_maxRetries :: "int option"
  qo_retryDelay :: "int option"
  qo_retryBackoff :: "int option"
  qo_jobTimeout :: "int option"
  qo_cleanupInterval :: "int option"
  qo_maxConcurrency :: "int option"

record config =
  cfg_maxRetries :: int
  retryDelay :: int
  retryBackoff :: int
  jobTimeout :: int
  cleanupInterval :: int
  maxConcurrency :: int

definition make_config :: "queue_options \<Rightarrow> config" where
  "make_config options =
     \<lparr>cfg_maxRetries = js_or (qo_maxRetries options) 3,
      retryDelay = js_or (qo_retryDelay options) 1000,
      retryBackoff = js_or (qo_retryBackoff options) 2,
      jobTimeout = js_or (qo_jobTimeout options) 30000,
      cleanupInterval = js_or (qo_cleanupInterval options) 60000,
      maxConcurrency = js_or (qo_maxConcurrency options) 10\<rparr>"

subsection \<open>\<open>_getJobData\<close> and \<open>_generateJobId\<close>\<close>

definition getJobData :: "state \<Rightarrow> string \<Rightarrow> job option" where
  "getJobData s jobId = jobs s jobId"

text \<open>
  \<open>_generateJobId\<close> joins the decimal text of the clock and a random base-36 suffix
  with a dash; both texts are given.
\<close>

definition generateJobId :: "string \<Rightarrow> string \<Rightarrow> string" where
  "generateJobId clock_text random_text = clock_text @ ''-'' @ random_text"

subsection \<open>\<open>addJob\<close>\<close>

record add_options =
  opt_jobId :: "string option"
  opt_priority :: "int option"
  opt_delay :: "int option"
  opt_maxRetries :: "int option"

text \<open>
  \<open>t_created\<close> and \<open>t_exec\<close> are the two readings of \<open>Date.now()\<close>: the first for
  \<open>createdAt\<close>, the second for the score of a delayed job.
\<close>

definition addJob ::
  "config \<Rightarrow> string \<Rightarrow> add_options \<Rightarrow> string \<Rightarrow> string \<Rightarrow> int \<Rightarrow> int \<Rightarrow> state \<Rightarrow> string \<times> state"
where
  "addJob cfg data options clock_text random_text t_created t_exec s =
     (let jobId = js_or_str (opt_jobId options) (generateJobId clock_text random_text);
          prio = js_or (opt_priority options) 0;
          delay = js_or (opt_delay options) 0;
          job = \<lparr>job_id = jobId, job_data = data, job_priority = prio, attempts = 0,
                 maxRetries = js_or (opt_maxRetries options) (cfg_maxRetries cfg),
                 createdAt = t_created, status = StPending, completedAt = None,
                 result = None, lastError = None, failedAt = None\<rparr>;
          s1 = s\<lparr>jobs := (jobs s)(jobId \<mapsto> job)\<rparr>;
          s2 = (if delay > 0 then s1\<lparr>delayed := zadd (delayed s1) (t_exec + delay) jobId\<rparr>
                else if prio > 0 then s1\<lparr>priority := zadd (priority s1) (- prio) jobId\<rparr>
                else s1\<lparr>pending := rpush (pending s1) jobId\<rparr>);
          s3 = s2\<lparr>stats := hincrby (stats s2) ''total'' 1\<rparr>;
          s4 = s3\<lparr>stats := hincrby (stats s3) ''pending'' 1\<rparr>
      in (jobId, s4))"

subsection \<open>\<open>getNextJob\<close>\<close>

text \<open>
  The two Lua scripts. Each pops an id and records it in \<open>processing\<close> in one step.
  The first tests the length of the reply of \<open>zpopmin\<close>, the second that the reply of
  \<open>lpop\<close> is not nil.
\<close>

definition pop_priority_script :: "int \<Rightarrow> state \<Rightarrow> string option \<times> state" where
  "pop_priority_script now s =
     (case zpopmin (priority s) of
        None \<Rightarrow> (None, s)
      | Some ((sc, m), rest) \<Rightarrow>
          (Some m, s\<lparr>priority := rest, processing := hset (processing s) m now\<rparr>))"

definition pop_pending_script :: "int \<Rightarrow> state \<Rightarrow> string option \<times> state" where
  "pop_pending_script now s =
     (case lpop (pending s) of
        None \<Rightarrow> (None, s)
      | Some (m, rest) \<Rightarrow>
          (Some m, s\<lparr>pending := rest, processing := hset (processing s) m now\<rparr>))"

text \<open>
  In JavaScript the reply of a script is tested with \<open>if (reply)\<close>: null and the empty
  string both fail the test.
\<close>

definition truthy :: "string option \<Rightarrow> bool" where
  "truthy r = (case r of None \<Rightarrow> False | Some v \<Rightarrow> v \<noteq> [])"

definition getNextJob :: "int \<Rightarrow> int \<Rightarrow> state \<Rightarrow> job option \<times> state" where
  "getNextJob t_prio t_pend s =
     (case pop_priority_script t_prio s of (priorityJob, s1) \<Rightarrow>
        if truthy priorityJob then (getJobData s1 (the priorityJob), s1)
        else
          (case pop_pending_script t_pend s1 of (jobId, s2) \<Rightarrow>
             if truthy jobId then
               (let s3 = s2\<lparr>stats := hincrby (stats s2) ''pending'' (- 1)\<rparr>;
                    s4 = s3\<lparr>stats := hincrby (stats s3) ''processing'' 1\<rparr>
                in (getJobData s4 (the jobId), s4))
             else (None, s2)))"

subsection \<open>\<open>completeJob\<close>\<close>

definition completeJob :: "string \<Rightarrow> string option \<Rightarrow> int \<Rightarrow> state \<Rightarrow> bool \<times> state" where
  "completeJob jobId res now s =
     (case getJobData s jobId of
        None \<Rightarrow> (False, s)
      | Some job \<Rightarrow>
          (let job' = job\<lparr>status := StCompleted, completedAt := Some now, result := res\<rparr>;
               s1 = s\<lparr>jobs := (jobs s)(jobId \<mapsto> job')\<rparr>;
               s2 = s1\<lparr>processing := hdel (processing s1) jobId\<rparr>;
               s3 = s2\<lparr>completed := rpush (completed s2) jobId\<rparr>;
               s4 = s3\<lparr>stats := hincrby (stats s3) ''processing'' (- 1)\<rparr>;
               s5 = s4\<lparr>stats := hincrby (stats s4) ''completed'' 1\<rparr>
           in (True, s5)))"

subsection \<open>\<open>failJob\<close> and \<open>_retryJob\<close>\<close>

text \<open>
  The value a processor throws is an \<open>Error\<close> object with a message, or a string.
  \<open>error.message || String(error)\<close> is the message when there is a non-empty one.
\<close>

datatype thrown = ErrorObj string | ThrownText string

definition error_text :: "thrown \<Rightarrow> string" where
  "error_text e = (case e of
       ErrorObj msg \<Rightarrow> (if msg = [] then ''Error'' else msg)
     | ThrownText t \<Rightarrow> t)"

definition retryJob :: "config \<Rightarrow> job \<Rightarrow> int \<Rightarrow> state \<Rightarrow> bool \<times> state" where
  "retryJob cfg job now s =
     (let delay = retryDelay cfg * retryBackoff cfg ^ attempts job;
          executeAt = now + delay;
          job' = job\<lparr>status := StRetrying\<rparr>;
          s1 = s\<lparr>jobs := (jobs s)(job_id job' \<mapsto> job')\<rparr>;
          s2 = s1\<lparr>processing := hdel (processing s1) (job_id job')\<rparr>;
          s3 = s2\<lparr>delayed := zadd (delayed s2) executeAt (job_id job')\<rparr>;
          s4 = s3\<lparr>stats := hincrby (stats s3) ''processing'' (- 1)\<rparr>
      in (True, s4))"

definition failJob :: "config \<Rightarrow> string \<Rightarrow> thrown \<Rightarrow> int \<Rightarrow> int \<Rightarrow> state \<Rightarrow> bool \<times> state" where
  "failJob cfg jobId err t_failed t_retry s =
     (case getJobData s jobId of
        None \<Rightarrow> (False, s)
      | Some job \<Rightarrow>
          (let job1 = job\<lparr>attempts := attempts job + 1, lastError := Some (error_text err),
                          failedAt := Some t_failed\<rparr>
           in if int (attempts job1) < maxRetries job1 then retryJob cfg job1 t_retry s
              else
                (let job2 = job1\<lparr>status := StFailed\<rparr>;
                     s1 = s\<lparr>jobs := (jobs s)(jobId \<mapsto> job2)\<rparr>;
                     s2 = s1\<lparr>processing := hdel (processing s1) jobId\<rparr>;
                     s3 = s2\<lparr>failed := rpush (failed s2) jobId\<rparr>;
                     s4 = s3\<lparr>stats := hincrby (stats s3) ''processing'' (- 1)\<rparr>;
                     s5 = s4\<lparr>stats := hincrby (stats s4) ''failed'' 1\<rparr>
                 in (False, s5))))"

subsection \<open>\<open>processDelayedJobs\<close>\<close>

text \<open>The body of the \<open>for\<close> loop over the ids that are due.\<close>

fun promote :: "string list \<Rightarrow> state \<Rightarrow> state" where
  "promote [] s = s"
| "promote (jobId # rest) s =
     (case getJobData s jobId of
        None \<Rightarrow> promote rest s
      | Some job \<Rightarrow>
          (let s1 = s\<lparr>delayed := zrem (delayed s) jobId\<rparr>;
               s2 = (if job_priority job > 0
                     then s1\<lparr>priority := zadd (priority s1) (- job_priority job) jobId\<rparr>
                     else s1\<lparr>pending := rpush (pending s1) jobId\<rparr>);
               s3 = s2\<lparr>stats := hincrby (stats s2) ''pending'' 1\<rparr>
           in promote rest s3))"

definition processDelayedJobs :: "int \<Rightarrow> state \<Rightarrow> int \<times> state" where
  "processDelayedJobs now s =
     (let due = zrangebyscore (delayed s) 0 now
      in (int (length due), promote due s))"

subsection \<open>\<open>checkStalledJobs\<close>\<close>

text \<open>
  The loop runs over the entries \<open>hgetall\<close> returned before the loop. \<open>clk\<close> gives, for
  each id, the two clock readings of the \<open>failJob\<close> call made for it.
\<close>

definition timeout_error :: thrown where
  "timeout_error = ErrorObj ''Job timeout - stalled''"

fun sweep ::
  "config \<Rightarrow> int \<Rightarrow> (string \<Rightarrow> int \<times> int) \<Rightarrow> (string \<times> int) list \<Rightarrow> state \<Rightarrow> int \<Rightarrow> int \<times> state"
where
  "sweep cfg now clk [] s recovered = (recovered, s)"
| "sweep cfg now clk ((jobId, startTime) # rest) s recovered =
     (if now - startTime > jobTimeout cfg then
        (case getJobData s jobId of
           None \<Rightarrow> sweep cfg now clk rest s recovered
         | Some job \<Rightarrow>
             sweep cfg now clk rest
               (snd (failJob cfg jobId timeout_error (fst (clk jobId)) (snd (clk jobId)) s))
               (recovered + 1))
      else sweep cfg now clk rest s recovered)"

definition checkStalledJobs :: "config \<Rightarrow> int \<Rightarrow> (string \<Rightarrow> int \<times> int) \<Rightarrow> state \<Rightarrow> int \<times> state" where
  "checkStalledJobs cfg now clk s = sweep cfg now clk (hgetall (processing s)) s 0"

section \<open>Worker\<close>

text \<open>
  The processor is the user's function from the payload to its outcome: it returns a
  result (possibly undefined) or throws. The events the worker emits are collected in
  \<open>emitted\<close>.
\<close>

datatype outcome = Returned "string option" | Threw thrown

datatype worker_event = JobStarted job | JobCompleted job | JobFailed job thrown

record worker =
  isRunning :: bool
  currentJob :: "job option"
  processedCount :: nat
  emitted :: "worker_event list"

record loop_clock =
  at_prio :: int
  at_pend :: int
  at_complete :: int
  at_failed :: int
  at_retry :: int

text \<open>One pass through the body of the \<open>while\<close> loop of \<open>_processLoop\<close>.\<close>

definition processLoop_body ::
  "config \<Rightarrow> (string \<Rightarrow> outcome) \<Rightarrow> loop_clock \<Rightarrow> worker \<times> state \<Rightarrow> worker \<times> state"
where
  "processLoop_body cfg processorFn c ws =
     (case ws of (w, s) \<Rightarrow>
       (case getNextJob (at_prio c) (at_pend c) s of
          (None, s1) \<Rightarrow> (w, s1)
        | (Some job, s1) \<Rightarrow>
            (let w1 = w\<lparr>currentJob := Some job, emitted := emitted w @ [JobStarted job]\<rparr>
             in case processorFn (job_data job) of
                  Returned res \<Rightarrow>
                    (let s2 = snd (completeJob (job_id job) res (at_complete c) s1);
                         w2 = w1\<lparr>processedCount := processedCount w1 + 1\<rparr>;
                         w3 = w2\<lparr>emitted := emitted w2 @ [JobCompleted job]\<rparr>
                     in (w3\<lparr>currentJob := None\<rparr>, s2))
                | Threw err \<Rightarrow>
                    (let s2 = snd (failJob cfg (job_id job) err (at_failed c) (at_retry c) s1);
                         w2 = w1\<lparr>emitted := emitted w1 @ [JobFailed job err]\<rparr>
                     in (w2\<lparr>currentJob := None\<rparr>, s2)))))"

text \<open>The loop, with one clock per pass; it ends when the clocks are used up.\<close>

fun processLoop ::
  "config \<Rightarrow> (string \<Rightarrow> outcome) \<Rightarrow> loop_clock list \<Rightarrow> worker \<times> state \<Rightarrow> worker \<times> state"
where
  "processLoop cfg processorFn [] ws = ws"
| "processLoop cfg processorFn (c # cs) ws =
     (if isRunning (fst ws) then processLoop cfg processorFn cs (processLoop_body cfg processorFn c ws)
      else ws)"

section \<open>Sequences of broker operations\<close>

datatype op =
    AddJob string add_options string string int int
  | GetNextJob int int
  | CompleteJob string "string option" int
  | FailJob string thrown int int
  | ProcessDelayedJobs int
  | CheckStalledJobs int "string \<Rightarrow> int \<times> int"

fun apply_op :: "config \<Rightarrow> op \<Rightarrow> state \<Rightarrow> state" where
  "apply_op cfg (AddJob data options ct rt t1 t2) s = snd (addJob cfg data options ct rt t1 t2 s)"
| "apply_op cfg (GetNextJob t1 t2) s = snd (getNextJob t1 t2 s)"
| "apply_op cfg (CompleteJob jobId res now) s = snd (completeJob jobId res now s)"
| "apply_op cfg (FailJob jobId err t1 t2) s = snd (failJob cfg jobId err t1 t2 s)"
| "apply_op cfg (ProcessDelayedJobs now) s = snd (processDelayedJobs now s)"
| "apply_op cfg (CheckStalledJobs now clk) s = snd (checkStalledJobs cfg now clk s)"

fun run :: "config \<Rightarrow> op list \<Rightarrow> state \<Rightarrow> state" where
  "run cfg [] s = s"
| "run cfg (x # xs) s = run cfg xs (apply_op cfg x s)"

text \<open>Successive calls of \<open>getNextJob\<close>, one pair of clock readings per call.\<close>

fun drain :: "(int \<times> int) list \<Rightarrow> state \<Rightarrow> job option list \<times> state" where
  "drain [] s = ([], s)"
| "drain (t # ts) s =
     (case getNextJob (fst t) (snd t) s of (r, s1) \<Rightarrow>
        (case drain ts s1 of (rs, s2) \<Rightarrow> (r # rs, s2)))"

section \<open>Properties of states\<close>

definition queued_ids :: "state \<Rightarrow> string set" where
  "queued_ids s = set (pending s) \<union> zmembers (priority s) \<union> zmembers (delayed s)"

definition record_keys_ok :: "state \<Rightarrow> bool" where
  "record_keys_ok s \<longleftrightarrow> (\<forall>k j. jobs s k = Some j \<longrightarrow> job_id j = k \<and> k \<noteq> [])"

text \<open>
  The shape of a store that only the broker has written to: the sorted sets are sorted
  and without duplicate members, \<open>processing\<close> has one entry per id, every record is
  stored under its own, non-empty id, and every queued id has a record.
\<close>

definition store_ok :: "state \<Rightarrow> bool" where
  "store_ok s \<longleftrightarrow>
     zset_ok (priority s) \<and> zset_ok (delayed s) \<and> distinct (map fst (processing s)) \<and>
     record_keys_ok s \<and> (\<forall>m \<in> queued_ids s. jobs s m \<noteq> None)"

definition terminal :: "job_status \<Rightarrow> bool" where
  "terminal st \<longleftrightarrow> st = StCompleted \<or> st = StFailed"

definition attempts_bounded :: "state \<Rightarrow> bool" where
  "attempts_bounded s \<longleftrightarrow> (\<forall>k j. jobs s k = Some j \<longrightarrow> int (attempts j) \<le> maxRetries j)"

definition retries_left :: "state \<Rightarrow> bool" where
  "retries_left s \<longleftrightarrow>
     (\<forall>k j. jobs s k = Some j \<longrightarrow> \<not> terminal (status j) \<longrightarrow> int (attempts j) < maxRetries j)"

definition retry_inv :: "state \<Rightarrow> bool" where
  "retry_inv s \<longleftrightarrow> store_ok s \<and> attempts_bounded s \<and> retries_left s"

text \<open>
  A run is \<open>guarded\<close> when no job is created with a \<open>maxRetries\<close> below one and
  \<open>failJob\<close> is never applied, by a caller or by \<open>checkStalledJobs\<close>, to a record whose
  status is already terminal.
\<close>

definition live_record :: "state \<Rightarrow> string \<Rightarrow> bool" where
  "live_record s jobId = (case jobs s jobId of None \<Rightarrow> True | Some j \<Rightarrow> \<not> terminal (status j))"

fun op_guarded :: "config \<Rightarrow> state \<Rightarrow> op \<Rightarrow> bool" where
  "op_guarded cfg s (AddJob data options ct rt t1 t2) =
     (0 < js_or (opt_maxRetries options) (cfg_maxRetries cfg))"
| "op_guarded cfg s (FailJob jobId err t1 t2) = live_record s jobId"
| "op_guarded cfg s (CheckStalledJobs now clk) =
     list_all (\<lambda>(jobId, startTime). now - startTime > jobTimeout cfg \<longrightarrow> live_record s jobId)
       (processing s)"
| "op_guarded cfg s _ = True"

fun guarded :: "config \<Rightarrow> op list \<Rightarrow> state \<Rightarrow> bool" where
  "guarded cfg [] s = True"
| "guarded cfg (x # xs) s = (op_guarded cfg s x \<and> guarded cfg xs (apply_op cfg x s))"

section \<open>Example inputs\<close>

definition default_config :: config where
  "default_config = make_config \<lparr>qo_maxRetries = None, qo_retryDelay = None,
     qo_retryBackoff = None, qo_jobTimeout = None, qo_cleanupInterval = None,
     qo_maxConcurrency = None\<rparr>"

definition plain_options :: "string \<Rightarrow> add_options" where
  "plain_options jobId = \<lparr>opt_jobId = Some jobId, opt_priority = None, opt_delay = None,
     opt_maxRetries = None\<rparr>"

definition invalid_options :: add_options where
  "invalid_options = \<lparr>opt_jobId = Some ''j1'', opt_priority = Some (- 3), opt_delay = Some (- 5),
     opt_maxRetries = Some 0\<rparr>"

definition one_pending :: state where
  "one_pending = snd (addJob default_config ''payload'' (plain_options ''j1'')
     ''1700000000000'' ''k3x9q2m1z'' 1000 1000 empty_store)"

definition leased :: state where
  "leased = snd (getNextJob 1010 1010 one_pending)"

definition completed_once :: state where
  "completed_once = snd (completeJob ''j1'' (Some ''ok'') 1020 leased)"

definition one_priority :: state where
  "one_priority = snd (addJob default_config ''payload''
     \<lparr>opt_jobId = Some ''j1'', opt_priority = Some 5, opt_delay = None, opt_maxRetries = None\<rparr>
     ''1700000000000'' ''k3x9q2m1z'' 1000 1000 empty_store)"

definition orphan_delayed :: state where
  "orphan_delayed = empty_store\<lparr>delayed := [(5, ''ghost'')]\<rparr>"

definition three_queues :: state where
  "three_queues = run default_config
     [AddJob ''a'' (plain_options ''j1'') ''1700000000000'' ''aaaaaaaaa'' 1000 1000,
      AddJob ''b'' \<lparr>opt_jobId = Some ''j2'', opt_priority = Some 5, opt_delay = None,
         opt_maxRetries = None\<rparr> ''1700000000001'' ''bbbbbbbbb'' 1001 1001,
      AddJob ''c'' \<lparr>opt_jobId = Some ''j3'', opt_priority = None, opt_delay = Some 100,
         opt_maxRetries = None\<rparr> ''1700000000002'' ''ccccccccc'' 1002 1002]
     empty_store"

definition single_try :: add_options where
  "single_try = \<lparr>opt_jobId = Some ''j1'', opt_priority = None, opt_delay = None,
     opt_maxRetries = Some 1\<rparr>"

definition failed_once :: state where
  "failed_once = run default_config
     [AddJob ''payload'' single_try ''1700000000000'' ''k3x9q2m1z'' 1000 1000,
      GetNextJob 1010 1010,
      FailJob ''j1'' (ErrorObj ''boom'') 1020 1021]
     empty_store"

definition idle_worker :: worker where
  "idle_worker = \<lparr>isRunning = True, currentJob = None, processedCount = 0, emitted = []\<rparr>"

definition clock0 :: loop_clock where
  "clock0 = \<lparr>at_prio = 1010, at_pend = 1010, at_complete = 1020, at_failed = 1020,
     at_retry = 1021\<rparr>"

definition priority_scenario :: "op list" where
  "priority_scenario =
     [AddJob ''a'' (plain_options ''J1'') ''1700000000000'' ''aaaaaaaaa'' 1000 1000,
      AddJob ''b'' \<lparr>opt_jobId = Some ''J2'', opt_priority = Some 10, opt_delay = None,
         opt_maxRetries = None\<rparr> ''1700000000001'' ''bbbbbbbbb'' 1001 1001,
      AddJob ''c'' \<lparr>opt_jobId = Some ''J3'', opt_priority = Some 5, opt_delay = None,
         opt_maxRetries = None\<rparr> ''1700000000002'' ''ccccccccc'' 1002 1002]"

definition recovery_scenario :: "op list" where
  "recovery_scenario =
     [AddJob ''payload'' (plain_options ''j1'') ''1700000000000'' ''k3x9q2m1z'' 1000 1000,
      GetNextJob 1010 1010,
      CheckStalledJobs 40000 (\<lambda>jobId. (40001, 40002)),
      ProcessDelayedJobs 50000,
      GetNextJob 50010 50010,
      FailJob ''j1'' (ErrorObj ''boom'') 50020 50021,
      ProcessDelayedJobs 60000,
      GetNextJob 60010 60010,
      CompleteJob ''j1'' (Some ''ok'') 60020]"

section \<open>Facts about the store primitives\<close>

lemma set_zrem: "set (zrem z m) = {p \<in> set z. snd p \<noteq> m}"
  by (auto simp: zrem_def)

lemma zmembers_zrem: "zmembers (zrem z m) = zmembers z - {m}"
  by (auto simp: zmembers_def zrem_def image_iff)

lemma set_zadd: "set (zadd z sc m) = insert (sc, m) {p \<in> set z. snd p \<noteq> m}"
  by (auto simp: zadd_def set_zrem set_insort_key)

lemma zmembers_zadd: "zmembers (zadd z sc m) = insert m (zmembers z)"
  by (auto simp: zmembers_def set_zadd image_iff)

lemma zset_ok_zrem: "zset_ok z \<Longrightarrow> zset_ok (zrem z m)"
  by (simp add: zset_ok_def zrem_def distinct_map_filter sorted_wrt_filter)

lemma zset_ok_zadd: "zset_ok z \<Longrightarrow> zset_ok (zadd z sc m)"
proof -
  assume ok: "zset_ok z"
  have d: "distinct (map snd (zrem z m))" and s: "sorted (zrem z m)"
    using zset_ok_zrem [OF ok] by (simp_all add: zset_ok_def)
  have "m \<notin> snd ` set (zrem z m)"
    by (auto simp: set_zrem)
  with d have "distinct (map snd (zadd z sc m))"
    by (force simp: distinct_map zadd_def distinct_insort set_insort_key inj_on_def)
  moreover have "sorted (zadd z sc m)"
    using s by (simp add: zadd_def sorted_insort)
  ultimately show ?thesis by (simp add: zset_ok_def)
qed

lemma zset_ok_tl: "zset_ok (x # xs) \<Longrightarrow> zset_ok xs"
  by (auto simp: zset_ok_def)

lemma zset_ok_hd_min: "zset_ok (x # xs) \<Longrightarrow> y \<in> set (x # xs) \<Longrightarrow> fst x \<le> fst y"
  by (cases x; cases y) (force simp: zset_ok_def)

lemma counter_hincrby: "counter (hincrby m f d) g = (if g = f then counter m f + d else counter m g)"
  by (simp add: counter_def hincrby_def)

lemma map_fst_hset:
  "map fst (hset h k v) = (if k \<in> set (map fst h) then map fst h else map fst h @ [k])"
  by (induction h) (force+)

lemma distinct_hset: "distinct (map fst h) \<Longrightarrow> distinct (map fst (hset h k v))"
  by (simp add: map_fst_hset)

lemma distinct_hdel: "distinct (map fst h) \<Longrightarrow> distinct (map fst (hdel h k))"
  by (simp add: hdel_def distinct_map_filter)

lemma fresh_id_nonempty: "js_or_str a (generateJobId ct rt) \<noteq> []"
  by (simp add: js_or_str_def generateJobId_def split: option.splits)

section \<open>What each operation writes\<close>

lemma completeJob_None: "jobs s jobId = None \<Longrightarrow> completeJob jobId res now s = (False, s)"
  by (simp add: completeJob_def getJobData_def)

lemma completeJob_Some:
  "jobs s jobId = Some j \<Longrightarrow>
   completeJob jobId res now s =
     (True, s\<lparr>jobs := (jobs s)(jobId \<mapsto> j\<lparr>status := StCompleted, completedAt := Some now, result := res\<rparr>),
              processing := hdel (processing s) jobId,
              completed := completed s @ [jobId],
              stats := hincrby (hincrby (stats s) ''processing'' (- 1)) ''completed'' 1\<rparr>)"
  by (simp add: completeJob_def getJobData_def Let_def rpush_def)

lemma failJob_None: "jobs s jobId = None \<Longrightarrow> failJob cfg jobId err tf tr s = (False, s)"
  by (simp add: failJob_def getJobData_def)

lemma failJob_retry:
  "jobs s jobId = Some j \<Longrightarrow> int (attempts j) + 1 < maxRetries j \<Longrightarrow>
   failJob cfg jobId err tf tr s =
     (True, s\<lparr>jobs := (jobs s)(job_id j \<mapsto> j\<lparr>attempts := attempts j + 1,
                   lastError := Some (error_text err), failedAt := Some tf, status := StRetrying\<rparr>),
              processing := hdel (processing s) (job_id j),
              delayed := zadd (delayed s)
                (tr + retryDelay cfg * retryBackoff cfg ^ (attempts j + 1)) (job_id j),
              stats := hincrby (stats s) ''processing'' (- 1)\<rparr>)"
  by (simp add: failJob_def retryJob_def getJobData_def Let_def)

lemma failJob_final:
  "jobs s jobId = Some j \<Longrightarrow> \<not> int (attempts j) + 1 < maxRetries j \<Longrightarrow>
   failJob cfg jobId err tf tr s =
     (False, s\<lparr>jobs := (jobs s)(jobId \<mapsto> j\<lparr>attempts := attempts j + 1,
                   lastError := Some (error_text err), failedAt := Some tf, status := StFailed\<rparr>),
              processing := hdel (processing s) jobId,
              failed := failed s @ [jobId],
              stats := hincrby (hincrby (stats s) ''processing'' (- 1)) ''failed'' 1\<rparr>)"
  by (simp add: failJob_def getJobData_def Let_def rpush_def)

lemma getNextJob_priority:
  "priority s = (sc, m) # rest \<Longrightarrow> m \<noteq> [] \<Longrightarrow>
   getNextJob t1 t2 s = (jobs s m, s\<lparr>priority := rest, processing := hset (processing s) m t1\<rparr>)"
  by (simp add: getNextJob_def pop_priority_script_def zpopmin_def truthy_def getJobData_def)

lemma getNextJob_pending:
  "priority s = [] \<Longrightarrow> pending s = m # rest \<Longrightarrow> m \<noteq> [] \<Longrightarrow>
   getNextJob t1 t2 s =
     (jobs s m, s\<lparr>pending := rest, processing := hset (processing s) m t2,
                  stats := hincrby (hincrby (stats s) ''pending'' (- 1)) ''processing'' 1\<rparr>)"
  by (simp add: getNextJob_def pop_priority_script_def pop_pending_script_def zpopmin_def lpop_def
      truthy_def getJobData_def Let_def)

lemma getNextJob_empty:
  "priority s = [] \<Longrightarrow> pending s = [] \<Longrightarrow> getNextJob t1 t2 s = (None, s)"
  by (simp add: getNextJob_def pop_priority_script_def pop_pending_script_def zpopmin_def lpop_def
      truthy_def)

lemma jobs_getNextJob: "jobs (snd (getNextJob t1 t2 s)) = jobs s"
  by (simp add: getNextJob_def pop_priority_script_def pop_pending_script_def zpopmin_def lpop_def
      Let_def split: list.splits prod.splits)

lemma jobs_promote: "jobs (promote l s) = jobs s"
  by (induction l arbitrary: s) (simp_all add: getJobData_def Let_def split: option.splits)

lemma jobs_processDelayedJobs: "jobs (snd (processDelayedJobs now s)) = jobs s"
  by (simp add: processDelayedJobs_def Let_def jobs_promote)

section \<open>The broker keeps the store well formed\<close>

lemma store_ok_empty: "store_ok empty_store"
  by (simp add: store_ok_def empty_store_def zset_ok_def record_keys_ok_def queued_ids_def
      zmembers_def)

lemma store_ok_addJob:
  assumes "store_ok s"
  shows "store_ok (snd (addJob cfg data options ct rt t1 t2 s))"
proof -
  let ?id = "js_or_str (opt_jobId options) (generateJobId ct rt)"
  have ne: "?id \<noteq> []" by (rule fresh_id_nonempty)
  show ?thesis
    using assms ne
    by (auto simp: addJob_def Let_def store_ok_def record_keys_ok_def queued_ids_def
        zmembers_zadd zset_ok_zadd rpush_def)
qed

lemma store_ok_getNextJob:
  assumes "store_ok s"
  shows "store_ok (snd (getNextJob t1 t2 s))"
  using assms
  by (auto simp: getNextJob_def pop_priority_script_def pop_pending_script_def zpopmin_def
      lpop_def Let_def store_ok_def record_keys_ok_def queued_ids_def zmembers_def
      distinct_hset zset_ok_def
      split: list.splits prod.splits)

lemma store_ok_completeJob:
  assumes "store_ok s"
  shows "store_ok (snd (completeJob jobId res now s))"
proof (cases "jobs s jobId")
  case None
  then show ?thesis using assms by (simp add: completeJob_None)
next
  case (Some j)
  then show ?thesis
    using assms
    by (auto simp: completeJob_Some store_ok_def record_keys_ok_def queued_ids_def distinct_hdel)
qed

lemma store_ok_failJob:
  assumes "store_ok s"
  shows "store_ok (snd (failJob cfg jobId err tf tr s))"
proof (cases "jobs s jobId")
  case None
  then show ?thesis using assms by (simp add: failJob_None)
next
  case (Some j)
  then have k: "job_id j = jobId" "jobId \<noteq> []"
    using assms by (auto simp: store_ok_def record_keys_ok_def)
  show ?thesis
  proof (cases "int (attempts j) + 1 < maxRetries j")
    case True
    then show ?thesis
      using assms Some k
      by (auto simp: failJob_retry store_ok_def record_keys_ok_def queued_ids_def distinct_hdel
          zset_ok_zadd zmembers_zadd)
  next
    case False
    then show ?thesis
      using assms Some k
      by (auto simp: failJob_final store_ok_def record_keys_ok_def queued_ids_def distinct_hdel)
  qed
qed

lemma store_ok_promote: "store_ok s \<Longrightarrow> store_ok (promote l s)"
proof (induction l arbitrary: s)
  case Nil
  then show ?case by simp
next
  case (Cons jobId rest)
  show ?case
  proof (cases "jobs s jobId")
    case None
    then show ?thesis using Cons by (simp add: getJobData_def)
  next
    case (Some j)
    let ?s3 = "(if job_priority j > 0
        then s\<lparr>delayed := zrem (delayed s) jobId,
               priority := zadd (priority s) (- job_priority j) jobId\<rparr>
        else s\<lparr>delayed := zrem (delayed s) jobId, pending := rpush (pending s) jobId\<rparr>)
        \<lparr>stats := hincrby (stats (if job_priority j > 0
        then s\<lparr>delayed := zrem (delayed s) jobId,
               priority := zadd (priority s) (- job_priority j) jobId\<rparr>
        else s\<lparr>delayed := zrem (delayed s) jobId, pending := rpush (pending s) jobId\<rparr>)) ''pending'' 1\<rparr>"
    have eq: "promote (jobId # rest) s = promote rest ?s3"
      using Some by (simp add: getJobData_def Let_def)
    have "store_ok ?s3"
      using Cons.prems Some
      by (auto simp: store_ok_def record_keys_ok_def queued_ids_def zmembers_zadd zmembers_zrem
          zset_ok_zadd zset_ok_zrem rpush_def)
    then show ?thesis
      unfolding eq by (rule Cons.IH)
  qed
qed

lemma store_ok_processDelayedJobs: "store_ok s \<Longrightarrow> store_ok (snd (processDelayedJobs now s))"
  by (simp add: processDelayedJobs_def Let_def store_ok_promote)

lemma store_ok_sweep: "store_ok s \<Longrightarrow> store_ok (snd (sweep cfg now clk l s r))"
proof (induction l arbitrary: s r)
  case Nil
  then show ?case by simp
next
  case (Cons e rest)
  obtain jobId startTime where e: "e = (jobId, startTime)" by (cases e)
  show ?case
    using Cons.prems
    by (auto simp: e getJobData_def intro!: Cons.IH store_ok_failJob split: option.splits)
qed

lemma store_ok_checkStalledJobs:
  "store_ok s \<Longrightarrow> store_ok (snd (checkStalledJobs cfg now clk s))"
  by (simp add: checkStalledJobs_def store_ok_sweep)

lemma store_ok_apply_op: "store_ok s \<Longrightarrow> store_ok (apply_op cfg x s)"
  by (cases x)
    (simp_all add: store_ok_addJob store_ok_getNextJob store_ok_completeJob store_ok_failJob
      store_ok_processDelayedJobs store_ok_checkStalledJobs)

lemma store_ok_run: "store_ok s \<Longrightarrow> store_ok (run cfg ops s)"
  by (induction ops arbitrary: s) (simp_all add: store_ok_apply_op)

section \<open>Successive dequeues\<close>

lemma queued_record:
  assumes "store_ok s" and "m \<in> queued_ids s"
  shows "\<exists>j. jobs s m = Some j \<and> job_id j = m \<and> m \<noteq> []"
  using assms by (auto simp: store_ok_def record_keys_ok_def)

lemma fst_drain_Cons:
  "fst (drain (t # ts) s) =
     fst (getNextJob (fst t) (snd t) s) # fst (drain ts (snd (getNextJob (fst t) (snd t) s)))"
  by (simp split: prod.splits)

lemma drain_order:
  "store_ok s \<Longrightarrow> length ts \<le> length (priority s) + length (pending s) \<Longrightarrow>
   map (map_option job_id) (fst (drain ts s)) =
     map Some (take (length ts) (map snd (priority s) @ pending s))"
proof (induction ts arbitrary: s)
  case Nil
  then show ?case by simp
next
  case (Cons t ts)
  note IH = Cons.IH
  have ok: "store_ok s" by (rule Cons.prems(1))
  have ok': "store_ok (snd (getNextJob (fst t) (snd t) s))"
    using ok by (rule store_ok_getNextJob)
  show ?case
  proof (cases "priority s")
    case (Cons p rest)
    obtain sc m where p: "p = (sc, m)" by (cases p)
    have "m \<in> queued_ids s" using Cons p by (force simp: queued_ids_def zmembers_def)
    then obtain j where j: "jobs s m = Some j" "job_id j = m" "m \<noteq> []"
      using queued_record [OF ok] by blast
    have g: "getNextJob (fst t) (snd t) s =
        (Some j, s\<lparr>priority := rest, processing := hset (processing s) m (fst t)\<rparr>)"
      using getNextJob_priority [of s sc m rest "fst t" "snd t"] Cons p j by simp
    have len: "length ts \<le> length (priority (snd (getNextJob (fst t) (snd t) s)))
        + length (pending (snd (getNextJob (fst t) (snd t) s)))"
      using Cons.prems(2) Cons g by simp
    show ?thesis
      using IH [OF ok' len] g j Cons p
      by (simp add: fst_drain_Cons del: drain.simps)
  next
    case Nil
    show ?thesis
    proof (cases "pending s")
      case (Cons m rest)
      have "m \<in> queued_ids s" using Cons by (simp add: queued_ids_def)
      then obtain j where j: "jobs s m = Some j" "job_id j = m" "m \<noteq> []"
        using queued_record [OF ok] by blast
      have g: "getNextJob (fst t) (snd t) s =
          (Some j, s\<lparr>pending := rest, processing := hset (processing s) m (snd t),
             stats := hincrby (hincrby (stats s) ''pending'' (- 1)) ''processing'' 1\<rparr>)"
        using getNextJob_pending [of s m rest "fst t" "snd t"] Nil Cons j by simp
      have len: "length ts \<le> length (priority (snd (getNextJob (fst t) (snd t) s)))
          + length (pending (snd (getNextJob (fst t) (snd t) s)))"
        using \<open>length (t # ts) \<le> length (priority s) + length (pending s)\<close> Nil Cons g by simp
      show ?thesis
        using IH [OF ok' len] g j Nil Cons
        by (simp add: fst_drain_Cons del: drain.simps)
    next
      case Nil': Nil
      show ?thesis
        using \<open>length (t # ts) \<le> length (priority s) + length (pending s)\<close> Nil Nil' by simp
    qed
  qed
qed

lemma sorted_scores: "zset_ok z \<Longrightarrow> sorted (map fst z)"
proof (induction z)
  case Nil
  then show ?case by simp
next
  case (Cons x xs)
  have "\<forall>y \<in> set xs. fst x \<le> fst y"
    using zset_ok_hd_min [OF Cons.prems] by simp
  moreover have "sorted (map fst xs)"
    using Cons.IH zset_ok_tl [OF Cons.prems] by simp
  ultimately show ?case by simp
qed


section \<open>Attempts and retries along a guarded run\<close>

lemma retry_inv_empty: "retry_inv empty_store"
  using store_ok_empty
  by (simp add: retry_inv_def attempts_bounded_def retries_left_def empty_store_def)

lemma retry_inv_addJob:
  assumes "retry_inv s" and "0 < js_or (opt_maxRetries options) (cfg_maxRetries cfg)"
  shows "retry_inv (snd (addJob cfg data options ct rt t1 t2 s))"
proof -
  have "store_ok (snd (addJob cfg data options ct rt t1 t2 s))"
    using assms(1) by (simp add: retry_inv_def store_ok_addJob)
  moreover have "attempts_bounded (snd (addJob cfg data options ct rt t1 t2 s))"
    using assms by (auto simp: retry_inv_def attempts_bounded_def addJob_def Let_def)
  moreover have "retries_left (snd (addJob cfg data options ct rt t1 t2 s))"
    using assms by (auto simp: retry_inv_def retries_left_def addJob_def Let_def)
  ultimately show ?thesis by (simp add: retry_inv_def)
qed

lemma retry_inv_same_jobs:
  "retry_inv s \<Longrightarrow> store_ok s' \<Longrightarrow> jobs s' = jobs s \<Longrightarrow> retry_inv s'"
  by (simp add: retry_inv_def attempts_bounded_def retries_left_def)

lemma retry_inv_completeJob:
  assumes "retry_inv s"
  shows "retry_inv (snd (completeJob jobId res now s))"
proof (cases "jobs s jobId")
  case None
  then show ?thesis using assms by (simp add: completeJob_None)
next
  case (Some j)
  have "store_ok (snd (completeJob jobId res now s))"
    using assms by (simp add: retry_inv_def store_ok_completeJob)
  then show ?thesis
    using assms Some
    by (auto simp: retry_inv_def attempts_bounded_def retries_left_def completeJob_Some
        terminal_def)
qed

lemma retry_inv_failJob:
  assumes "retry_inv s" and "live_record s jobId"
  shows "retry_inv (snd (failJob cfg jobId err tf tr s))"
proof (cases "jobs s jobId")
  case None
  then show ?thesis using assms by (simp add: failJob_None)
next
  case (Some j)
  have ok: "store_ok (snd (failJob cfg jobId err tf tr s))"
    using assms by (simp add: retry_inv_def store_ok_failJob)
  have k: "job_id j = jobId"
    using assms Some by (auto simp: retry_inv_def store_ok_def record_keys_ok_def)
  have lt: "int (attempts j) < maxRetries j"
    using assms Some by (auto simp: retry_inv_def retries_left_def live_record_def)
  show ?thesis
  proof (cases "int (attempts j) + 1 < maxRetries j")
    case True
    then show ?thesis
      using assms(1) Some k ok
      by (auto simp: retry_inv_def attempts_bounded_def retries_left_def failJob_retry)
  next
    case False
    then show ?thesis
      using assms(1) Some k ok lt
      by (auto simp: retry_inv_def attempts_bounded_def retries_left_def failJob_final terminal_def)
  qed
qed

lemma jobs_failJob_other:
  assumes "record_keys_ok s" and "k \<noteq> jobId"
  shows "jobs (snd (failJob cfg jobId err tf tr s)) k = jobs s k"
proof (cases "jobs s jobId")
  case None
  then show ?thesis by (simp add: failJob_None)
next
  case (Some j)
  then have "job_id j = jobId" using assms(1) by (simp add: record_keys_ok_def)
  then show ?thesis
    using Some assms(2)
    by (cases "int (attempts j) + 1 < maxRetries j") (simp_all add: failJob_retry failJob_final)
qed

lemma retry_inv_sweep:
  assumes "retry_inv s" and "distinct (map fst l)"
    and "list_all (\<lambda>(jobId, startTime). now - startTime > jobTimeout cfg \<longrightarrow> live_record s jobId) l"
  shows "retry_inv (snd (sweep cfg now clk l s r))"
  using assms
proof (induction l arbitrary: s r)
  case Nil
  then show ?case by simp
next
  case (Cons e rest)
  obtain jobId startTime where e: "e = (jobId, startTime)" by (cases e)
  have d: "distinct (map fst rest)" and notin: "jobId \<notin> fst ` set rest"
    using Cons.prems(2) e by auto
  have g: "list_all (\<lambda>(jobId, startTime). now - startTime > jobTimeout cfg \<longrightarrow> live_record s jobId) rest"
    using Cons.prems(3) by simp
  show ?case
  proof (cases "now - startTime > jobTimeout cfg \<and> jobs s jobId \<noteq> None")
    case False
    then have "sweep cfg now clk (e # rest) s r = sweep cfg now clk rest s r"
      by (auto simp: e getJobData_def split: option.splits)
    then show ?thesis
      using Cons.IH [OF Cons.prems(1) d g] by simp
  next
    case True
    let ?s' = "snd (failJob cfg jobId timeout_error (fst (clk jobId)) (snd (clk jobId)) s)"
    have eq: "sweep cfg now clk (e # rest) s r = sweep cfg now clk rest ?s' (r + 1)"
      using True by (auto simp: e getJobData_def split: option.splits)
    have live: "live_record s jobId"
      using Cons.prems(3) True e by simp
    have inv': "retry_inv ?s'"
      using Cons.prems(1) live by (rule retry_inv_failJob)
    have keys: "record_keys_ok s"
      using Cons.prems(1) by (simp add: retry_inv_def store_ok_def)
    have "live_record ?s' k = live_record s k" if "k \<in> fst ` set rest" for k
    proof -
      have "k \<noteq> jobId" using that notin by auto
      then show ?thesis
        by (simp add: live_record_def jobs_failJob_other [OF keys])
    qed
    then have g': "list_all (\<lambda>(jobId, startTime). now - startTime > jobTimeout cfg \<longrightarrow> live_record ?s' jobId) rest"
      using g by (force simp: list_all_iff)
    show ?thesis
      unfolding eq using Cons.IH [OF inv' d g'] .
  qed
qed

lemma retry_inv_apply_op:
  assumes "retry_inv s" and "op_guarded cfg s x"
  shows "retry_inv (apply_op cfg x s)"
proof (cases x)
  case (AddJob data options ct rt t1 t2)
  then show ?thesis using assms by (simp add: retry_inv_addJob)
next
  case (GetNextJob t1 t2)
  have "store_ok (snd (getNextJob t1 t2 s))"
    using assms(1) by (simp add: retry_inv_def store_ok_getNextJob)
  then show ?thesis
    using assms(1) GetNextJob by (simp add: retry_inv_same_jobs [OF assms(1)] jobs_getNextJob)
next
  case (CompleteJob jobId res now)
  then show ?thesis using assms by (simp add: retry_inv_completeJob)
next
  case (FailJob jobId err t1 t2)
  then show ?thesis using assms by (simp add: retry_inv_failJob)
next
  case (ProcessDelayedJobs now)
  have "store_ok (snd (processDelayedJobs now s))"
    using assms(1) by (simp add: retry_inv_def store_ok_processDelayedJobs)
  then show ?thesis
    using ProcessDelayedJobs
    by (simp add: retry_inv_same_jobs [OF assms(1)] jobs_processDelayedJobs)
next
  case (CheckStalledJobs now clk)
  have "distinct (map fst (processing s))"
    using assms(1) by (simp add: retry_inv_def store_ok_def)
  then show ?thesis
    using assms CheckStalledJobs
    by (simp add: checkStalledJobs_def hgetall_def retry_inv_sweep)
qed

lemma retry_inv_run: "retry_inv s \<Longrightarrow> guarded cfg ops s \<Longrightarrow> retry_inv (run cfg ops s)"
  by (induction ops arbitrary: s) (simp_all add: retry_inv_apply_op)


section \<open>The example states, evaluated\<close>

lemmas ex_defs = default_config_def make_config_def plain_options_def js_or_def js_or_str_def
  empty_store_def addJob_def getNextJob_def completeJob_def failJob_def retryJob_def
  pop_priority_script_def pop_pending_script_def zpopmin_def lpop_def truthy_def getJobData_def
  rpush_def hdel_def zadd_def zrem_def hincrby_def counter_def Let_def error_text_def

lemma one_pending_eq: "one_pending =
  \<lparr>jobs = [''j1'' \<mapsto> \<lparr>job_id = ''j1'', job_data = ''payload'', job_priority = 0, attempts = 0,
       maxRetries = 3, createdAt = 1000, status = StPending, completedAt = None, result = None,
       lastError = None, failedAt = None\<rparr>],
    pending = [''j1''], priority = [], delayed = [], processing = [], completed = [], failed = [],
    stats = [''total'' \<mapsto> 1, ''pending'' \<mapsto> 1]\<rparr>"
  by (simp add: one_pending_def ex_defs)

lemma leased_eq: "leased =
  \<lparr>jobs = [''j1'' \<mapsto> \<lparr>job_id = ''j1'', job_data = ''payload'', job_priority = 0, attempts = 0,
       maxRetries = 3, createdAt = 1000, status = StPending, completedAt = None, result = None,
       lastError = None, failedAt = None\<rparr>],
    pending = [], priority = [], delayed = [], processing = [(''j1'', 1010)], completed = [],
    failed = [],
    stats = [''total'' \<mapsto> 1, ''pending'' \<mapsto> 0, ''processing'' \<mapsto> 1]\<rparr>"
  by (simp add: leased_def one_pending_eq ex_defs)

lemma completed_once_eq: "completed_once =
  \<lparr>jobs = [''j1'' \<mapsto> \<lparr>job_id = ''j1'', job_data = ''payload'', job_priority = 0, attempts = 0,
       maxRetries = 3, createdAt = 1000, status = StCompleted, completedAt = Some 1020,
       result = Some ''ok'', lastError = None, failedAt = None\<rparr>],
    pending = [], priority = [], delayed = [], processing = [], completed = [''j1''],
    failed = [],
    stats = [''total'' \<mapsto> 1, ''pending'' \<mapsto> 0, ''processing'' \<mapsto> 0, ''completed'' \<mapsto> 1]\<rparr>"
  by (simp add: completed_once_def leased_eq ex_defs)

lemma three_queues_eq: "three_queues =
  \<lparr>jobs = [''j1'' \<mapsto> \<lparr>job_id = ''j1'', job_data = ''a'', job_priority = 0, attempts = 0,
       maxRetries = 3, createdAt = 1000, status = StPending, completedAt = None, result = None,
       lastError = None, failedAt = None\<rparr>,
     ''j2'' \<mapsto> \<lparr>job_id = ''j2'', job_data = ''b'', job_priority = 5, attempts = 0,
       maxRetries = 3, createdAt = 1001, status = StPending, completedAt = None, result = None,
       lastError = None, failedAt = None\<rparr>,
     ''j3'' \<mapsto> \<lparr>job_id = ''j3'', job_data = ''c'', job_priority = 0, attempts = 0,
       maxRetries = 3, createdAt = 1002, status = StPending, completedAt = None, result = None,
       lastError = None, failedAt = None\<rparr>],
    pending = [''j1''], priority = [(- 5, ''j2'')], delayed = [(1102, ''j3'')], processing = [],
    completed = [], failed = [],
    stats = [''total'' \<mapsto> 3, ''pending'' \<mapsto> 3]\<rparr>"
  by (simp add: three_queues_def ex_defs)

lemma failed_once_eq: "failed_once =
  \<lparr>jobs = [''j1'' \<mapsto> \<lparr>job_id = ''j1'', job_data = ''payload'', job_priority = 0, attempts = 1,
       maxRetries = 1, createdAt = 1000, status = StFailed, completedAt = None, result = None,
       lastError = Some ''boom'', failedAt = Some 1020\<rparr>],
    pending = [], priority = [], delayed = [], processing = [], completed = [], failed = [''j1''],
    stats = [''total'' \<mapsto> 1, ''pending'' \<mapsto> 0, ''processing'' \<mapsto> 0, ''failed'' \<mapsto> 1]\<rparr>"
  by (simp add: failed_once_def single_try_def ex_defs)

lemma priority_scenario_queues:
  "priority (run default_config priority_scenario empty_store) = [(- 10, ''J2''), (- 5, ''J3'')]"
  "pending (run default_config priority_scenario empty_store) = [''J1'']"
  by (simp_all add: priority_scenario_def ex_defs)

lemma one_pending_queues:
  "priority one_pending = []" "pending one_pending = [''j1'']"
  "map_option job_id (jobs one_pending ''j1'') = Some ''j1''"
  by (simp_all add: one_pending_eq)

lemma recovery_scenario_guarded: "guarded default_config recovery_scenario empty_store"
  by (simp add: recovery_scenario_def ex_defs checkStalledJobs_def hgetall_def
      processDelayedJobs_def zrangebyscore_def live_record_def terminal_def timeout_error_def)

lemma recovery_scenario_end:
  "map_option attempts (jobs (run default_config recovery_scenario empty_store) ''j1'') = Some 2"
  "map_option status (jobs (run default_config recovery_scenario empty_store) ''j1'')
     = Some StCompleted"
  by (simp_all add: recovery_scenario_def ex_defs checkStalledJobs_def hgetall_def
      processDelayedJobs_def zrangebyscore_def timeout_error_def)

lemma getNextJob_one_pending:
  "getNextJob (at_prio clock0) (at_pend clock0) one_pending = (jobs one_pending ''j1'', leased)"
  by (simp add: leased_eq one_pending_eq clock0_def ex_defs)

section \<open>The claims\<close>

subsection \<open>C1: a second terminal transition\<close>

text \<open>
  C1 says that, for a job id whose record already has a terminal status, a second call of
  \<open>completeJob\<close> or \<open>failJob\<close> returns false and changes nothing. The code tests only
  whether the record exists. After \<open>addJob\<close>, \<open>getNextJob\<close> and \<open>completeJob\<close> for
  \<open>j1\<close>, a second \<open>completeJob\<close> returns true, appends \<open>j1\<close> to \<open>completed\<close> again,
  raises \<open>stats.completed\<close> to 2 and rewrites \<open>completedAt\<close>; after a permanent failure of
  \<open>j1\<close>, a second \<open>failJob\<close> returns false but appends \<open>j1\<close> to \<open>failed\<close> again.
\<close>

theorem second_terminal_call_counterexample:
  "map_option status (jobs completed_once ''j1'') = Some StCompleted \<and>
   completed completed_once = [''j1''] \<and>
   counter (stats completed_once) ''completed'' = 1 \<and>
   map_option completedAt (jobs completed_once ''j1'') = Some (Some 1020) \<and>
   fst (completeJob ''j1'' (Some ''ok'') 1030 completed_once) = True \<and>
   completed (snd (completeJob ''j1'' (Some ''ok'') 1030 completed_once)) = [''j1'', ''j1''] \<and>
   counter (stats (snd (completeJob ''j1'' (Some ''ok'') 1030 completed_once))) ''completed'' = 2 \<and>
   map_option completedAt (jobs (snd (completeJob ''j1'' (Some ''ok'') 1030 completed_once)) ''j1'')
     = Some (Some 1030) \<and>
   map_option status (jobs failed_once ''j1'') = Some StFailed \<and>
   failed failed_once = [''j1''] \<and>
   fst (failJob default_config ''j1'' (ErrorObj ''late'') 1030 1031 failed_once) = False \<and>
   failed (snd (failJob default_config ''j1'' (ErrorObj ''late'') 1030 1031 failed_once))
     = [''j1'', ''j1'']"
  by (simp add: completed_once_def leased_eq failed_once_eq ex_defs)

text \<open>
  C1 as amended: for a job id whose record already has a terminal status, neither
  operation looks at the status, and each does again all that it does for a job being
  processed. \<open>completeJob\<close> returns true, rewrites the record as completed with the new
  time and result, removes the id from \<open>processing\<close>, appends it to \<open>completed\<close> again,
  decrements \<open>stats.processing\<close> and increments \<open>stats.completed\<close>. \<open>failJob\<close>
  rewrites the record with \<open>attempts\<close> incremented and the new error text and failure
  time, removes the id from \<open>processing\<close> and decrements \<open>stats.processing\<close>. When the
  incremented \<open>attempts\<close> is below \<open>maxRetries\<close> it returns true, sets the status to
  retrying and inserts the id into \<open>delayed\<close> with score
  \<open>now + retryDelay * retryBackoff ^ attempts\<close>; otherwise it returns false, sets the status
  to failed, appends the id to \<open>failed\<close> again and increments \<open>stats.failed\<close>. Nothing
  else in the store changes.
\<close>

theorem second_terminal_call_repeats:
  assumes "jobs s jobId = Some j" and "job_id j = jobId" and "terminal (status j)"
  shows "completeJob jobId res now s =
           (True,
            s\<lparr>jobs := (jobs s)(jobId \<mapsto>
                  j\<lparr>status := StCompleted, completedAt := Some now, result := res\<rparr>),
              processing := hdel (processing s) jobId,
              completed := completed s @ [jobId],
              stats := hincrby (hincrby (stats s) ''processing'' (- 1)) ''completed'' 1\<rparr>) \<and>
         counter (stats (snd (completeJob jobId res now s))) ''completed''
           = counter (stats s) ''completed'' + 1 \<and>
         counter (stats (snd (completeJob jobId res now s))) ''processing''
           = counter (stats s) ''processing'' - 1 \<and>
         failJob cfg jobId err tf tr s =
           (if int (attempts j) + 1 < maxRetries j then
              (True,
               s\<lparr>jobs := (jobs s)(jobId \<mapsto>
                     j\<lparr>attempts := attempts j + 1, lastError := Some (error_text err),
                        failedAt := Some tf, status := StRetrying\<rparr>),
                 processing := hdel (processing s) jobId,
                 delayed := zadd (delayed s)
                   (tr + retryDelay cfg * retryBackoff cfg ^ (attempts j + 1)) jobId,
                 stats := hincrby (stats s) ''processing'' (- 1)\<rparr>)
            else
              (False,
               s\<lparr>jobs := (jobs s)(jobId \<mapsto>
                     j\<lparr>attempts := attempts j + 1, lastError := Some (error_text err),
                        failedAt := Some tf, status := StFailed\<rparr>),
                 processing := hdel (processing s) jobId,
                 failed := failed s @ [jobId],
                 stats := hincrby (hincrby (stats s) ''processing'' (- 1)) ''failed'' 1\<rparr>)) \<and>
         map_option attempts (jobs (snd (failJob cfg jobId err tf tr s)) jobId)
           = Some (attempts j + 1) \<and>
         counter (stats (snd (failJob cfg jobId err tf tr s))) ''processing''
           = counter (stats s) ''processing'' - 1 \<and>
         counter (stats (snd (failJob cfg jobId err tf tr s))) ''failed''
           = (if int (attempts j) + 1 < maxRetries j then counter (stats s) ''failed''
              else counter (stats s) ''failed'' + 1)"
proof (cases "int (attempts j) + 1 < maxRetries j")
  case True
  then show ?thesis
    using assms(1,2)
    by (simp add: completeJob_Some failJob_retry counter_hincrby)
next
  case False
  then show ?thesis
    using assms(1,2)
    by (simp add: completeJob_Some failJob_final counter_hincrby)
qed

theorem second_terminal_call_repeats_witness:
  "map_option (terminal \<circ> status) (jobs failed_once ''j1'') = Some True \<and>
   map_option job_id (jobs failed_once ''j1'') = Some ''j1'' \<and>
   fst (completeJob ''j1'' (Some ''ok'') 1030 failed_once) = True \<and>
   completed (snd (completeJob ''j1'' (Some ''ok'') 1030 failed_once)) = [''j1''] \<and>
   fst (failJob default_config ''j1'' (ErrorObj ''late'') 1030 1031 failed_once) = False \<and>
   failed (snd (failJob default_config ''j1'' (ErrorObj ''late'') 1030 1031 failed_once))
     = [''j1'', ''j1''] \<and>
   map_option attempts
     (jobs (snd (failJob default_config ''j1'' (ErrorObj ''late'') 1030 1031 failed_once)) ''j1'')
     = Some 2 \<and>
   counter (stats (snd (failJob default_config ''j1'' (ErrorObj ''late'') 1030 1031 failed_once)))
     ''failed'' = 2 \<and>
   map_option (terminal \<circ> status) (jobs completed_once ''j1'') = Some True \<and>
   map_option job_id (jobs completed_once ''j1'') = Some ''j1'' \<and>
   fst (failJob default_config ''j1'' (ErrorObj ''late'') 1030 1031 completed_once) = True \<and>
   map_option attempts
     (jobs (snd (failJob default_config ''j1'' (ErrorObj ''late'') 1030 1031 completed_once)) ''j1'')
     = Some 1 \<and>
   map_option status
     (jobs (snd (failJob default_config ''j1'' (ErrorObj ''late'') 1030 1031 completed_once)) ''j1'')
     = Some StRetrying \<and>
   delayed (snd (failJob default_config ''j1'' (ErrorObj ''late'') 1030 1031 completed_once))
     = [(3031, ''j1'')] \<and>
   failed (snd (failJob default_config ''j1'' (ErrorObj ''late'') 1030 1031 completed_once)) = []"
proof -
  let ?f = "\<lparr>job_id = ''j1'', job_data = ''payload'', job_priority = 0, attempts = 1,
       maxRetries = 1, createdAt = 1000, status = StFailed, completedAt = None, result = None,
       lastError = Some ''boom'', failedAt = Some 1020\<rparr>"
  let ?c = "\<lparr>job_id = ''j1'', job_data = ''payload'', job_priority = 0, attempts = 0,
       maxRetries = 3, createdAt = 1000, status = StCompleted, completedAt = Some 1020,
       result = Some ''ok'', lastError = None, failedAt = None\<rparr>"
  have f1: "jobs failed_once ''j1'' = Some ?f" by (simp add: failed_once_eq)
  have f2: "job_id ?f = ''j1''" by simp
  have f3: "terminal (status ?f)" by (simp add: terminal_def)
  have c1: "jobs completed_once ''j1'' = Some ?c" by (simp add: completed_once_eq)
  have c2: "job_id ?c = ''j1''" by simp
  have c3: "terminal (status ?c)" by (simp add: terminal_def)
  show ?thesis
    using second_terminal_call_repeats [OF f1 f2 f3, of "Some ''ok''" 1030 default_config
        "ErrorObj ''late''" 1030 1031]
      second_terminal_call_repeats [OF c1 c2 c3, of "Some ''ok''" 1030 default_config
        "ErrorObj ''late''" 1030 1031]
    by (simp add: failed_once_eq completed_once_eq terminal_def ex_defs)
qed

subsection \<open>C2: priority before pending\<close>

text \<open>
  C2: in every store the broker has written, when the priority set is not empty
  \<open>getNextJob\<close> returns the job of a member with the lowest score, removes it from the
  priority set and leaves the pending list alone; when the priority set is empty it
  returns the job at the head of the pending list, or null when that is empty too. The
  priority set is in ascending score order, and \<open>n\<close> successive calls, for \<open>n\<close> up to
  the number of runnable jobs, return the first \<open>n\<close> ids of the priority set in score
  order followed by the pending list in FIFO order. Every store reached from the empty
  one by broker operations satisfies \<open>store_ok\<close> (lemma \<open>store_ok_run\<close>).
\<close>

theorem getNextJob_priority_first:
  assumes "store_ok s"
  shows "(priority s \<noteq> [] \<longrightarrow>
            (\<exists>sc m j. (sc, m) \<in> set (priority s) \<and> (\<forall>p \<in> set (priority s). sc \<le> fst p) \<and>
               jobs s m = Some j \<and> job_id j = m \<and>
               fst (getNextJob t1 t2 s) = Some j \<and>
               priority (snd (getNextJob t1 t2 s)) = zrem (priority s) m \<and>
               pending (snd (getNextJob t1 t2 s)) = pending s)) \<and>
         (priority s = [] \<longrightarrow>
            fst (getNextJob t1 t2 s) = (case pending s of [] \<Rightarrow> None | m # rest \<Rightarrow> jobs s m) \<and>
            pending (snd (getNextJob t1 t2 s)) = tl (pending s)) \<and>
         sorted (map fst (priority s)) \<and>
         (length ts \<le> length (priority s) + length (pending s) \<longrightarrow>
            map (map_option job_id) (fst (drain ts s)) =
              map Some (take (length ts) (map snd (priority s) @ pending s)))"
proof -
  have zok: "zset_ok (priority s)" using assms by (simp add: store_ok_def)
  have a: "\<exists>sc m j. (sc, m) \<in> set (priority s) \<and> (\<forall>p \<in> set (priority s). sc \<le> fst p) \<and>
               jobs s m = Some j \<and> job_id j = m \<and>
               fst (getNextJob t1 t2 s) = Some j \<and>
               priority (snd (getNextJob t1 t2 s)) = zrem (priority s) m \<and>
               pending (snd (getNextJob t1 t2 s)) = pending s"
    if ne: "priority s \<noteq> []"
  proof -
    obtain sc m rest where pr: "priority s = (sc, m) # rest"
      using ne by (cases "priority s") auto
    have "m \<in> queued_ids s" using pr by (force simp: queued_ids_def zmembers_def)
    then obtain j where j: "jobs s m = Some j" "job_id j = m" "m \<noteq> []"
      using queued_record [OF assms] by blast
    have g: "getNextJob t1 t2 s =
        (Some j, s\<lparr>priority := rest, processing := hset (processing s) m t1\<rparr>)"
      using getNextJob_priority [of s sc m rest t1 t2] pr j by simp
    have mn: "\<forall>p \<in> set (priority s). sc \<le> fst p"
      using zset_ok_hd_min [of "(sc, m)" rest] zok pr by auto
    have "m \<notin> snd ` set rest" using zok pr by (simp add: zset_ok_def)
    then have "filter (\<lambda>(sc, m'). m' \<noteq> m) rest = rest"
      by (force simp: filter_id_conv)
    then have rm: "zrem (priority s) m = rest"
      by (simp add: zrem_def pr)
    show ?thesis
      using pr j g mn rm by auto
  qed
  have b: "fst (getNextJob t1 t2 s) = (case pending s of [] \<Rightarrow> None | m # rest \<Rightarrow> jobs s m) \<and>
            pending (snd (getNextJob t1 t2 s)) = tl (pending s)"
    if em: "priority s = []"
  proof (cases "pending s")
    case Nil
    then show ?thesis using getNextJob_empty [OF em Nil] by simp
  next
    case (Cons m rest)
    have "m \<in> queued_ids s" using Cons by (simp add: queued_ids_def)
    then have "m \<noteq> []" using queued_record [OF assms] by blast
    then show ?thesis using getNextJob_pending [OF em Cons] Cons by simp
  qed
  show ?thesis
    using a b sorted_scores [OF zok] drain_order [OF assms] by blast
qed

theorem getNextJob_priority_first_witness:
  "store_ok (run default_config priority_scenario empty_store) \<and>
   priority (run default_config priority_scenario empty_store) \<noteq> [] \<and>
   map (map_option job_id)
     (fst (drain [(2000, 2000), (2001, 2001), (2002, 2002)]
        (run default_config priority_scenario empty_store)))
     = [Some ''J2'', Some ''J3'', Some ''J1''] \<and>
   store_ok one_pending \<and> priority one_pending = [] \<and>
   map_option job_id (fst (getNextJob 2000 2000 one_pending)) = Some ''j1''"
proof -
  have ok1: "store_ok (run default_config priority_scenario empty_store)"
    by (rule store_ok_run [OF store_ok_empty])
  have ok2: "store_ok one_pending"
    unfolding one_pending_def by (rule store_ok_addJob [OF store_ok_empty])
  show ?thesis
    using ok1 ok2
      getNextJob_priority_first [OF ok1, of 2000 2000 "[(2000, 2000), (2001, 2001), (2002, 2002)]"]
      getNextJob_priority_first [OF ok2, of 2000 2000 "[]"]
    by (simp add: priority_scenario_queues one_pending_queues)
qed

subsection \<open>C3: the counters on dequeue\<close>

text \<open>
  C3 says that every \<open>getNextJob\<close> that returns a job decrements \<open>stats.pending\<close> and
  increments \<open>stats.processing\<close>. The branch for the pending list does both; the branch
  for the priority set returns before them. After \<open>addJob\<close> of \<open>j1\<close> with priority 5,
  \<open>getNextJob\<close> returns \<open>j1\<close> and moves it to \<open>processing\<close>, and both counters stay as
  they were (1 and 0); for the same job added without priority they become 0 and 1.
\<close>

theorem getNextJob_priority_skips_counters:
  "map_option job_id (fst (getNextJob 1010 1011 one_priority)) = Some ''j1'' \<and>
   priority one_priority = [(- 5, ''j1'')] \<and>
   priority (snd (getNextJob 1010 1011 one_priority)) = [] \<and>
   processing (snd (getNextJob 1010 1011 one_priority)) = [(''j1'', 1010)] \<and>
   counter (stats one_priority) ''pending'' = 1 \<and>
   counter (stats (snd (getNextJob 1010 1011 one_priority))) ''pending'' = 1 \<and>
   counter (stats one_priority) ''processing'' = 0 \<and>
   counter (stats (snd (getNextJob 1010 1011 one_priority))) ''processing'' = 0 \<and>
   map_option job_id (fst (getNextJob 1010 1011 one_pending)) = Some ''j1'' \<and>
   counter (stats one_pending) ''pending'' = 1 \<and>
   counter (stats (snd (getNextJob 1010 1011 one_pending))) ''pending'' = 0 \<and>
   counter (stats (snd (getNextJob 1010 1011 one_pending))) ''processing'' = 1"
  by (simp add: one_priority_def one_pending_eq ex_defs)

subsection \<open>C4: where \<open>addJob\<close> puts a job\<close>

text \<open>
  C4: \<open>addJob\<close> returns the job id (the one given, or else a generated one) and writes
  under it a record with that id, the payload, \<open>attempts = 0\<close> and status pending. The id
  goes into exactly one collection, the other two staying as they were: \<open>delayed\<close> with
  score \<open>now + delay\<close> when \<open>delay > 0\<close>; else \<open>priority\<close> with score \<open>- priority\<close> when
  \<open>priority > 0\<close>; else the tail of \<open>pending\<close>.
\<close>

theorem addJob_places_job:
  "(let jobId = js_or_str (opt_jobId options) (generateJobId ct rt);
        prio = js_or (opt_priority options) 0;
        delay = js_or (opt_delay options) 0;
        s' = snd (addJob cfg data options ct rt t_created t_exec s)
    in fst (addJob cfg data options ct rt t_created t_exec s) = jobId \<and>
       map_option job_id (jobs s' jobId) = Some jobId \<and>
       map_option job_data (jobs s' jobId) = Some data \<and>
       map_option attempts (jobs s' jobId) = Some 0 \<and>
       map_option status (jobs s' jobId) = Some StPending \<and>
       (if delay > 0 then
          (t_exec + delay, jobId) \<in> set (delayed s') \<and>
          delayed s' = zadd (delayed s) (t_exec + delay) jobId \<and>
          priority s' = priority s \<and> pending s' = pending s
        else if prio > 0 then
          (- prio, jobId) \<in> set (priority s') \<and>
          priority s' = zadd (priority s) (- prio) jobId \<and>
          delayed s' = delayed s \<and> pending s' = pending s
        else
          pending s' = pending s @ [jobId] \<and>
          delayed s' = delayed s \<and> priority s' = priority s))"
  by (simp add: addJob_def Let_def rpush_def set_zadd)

theorem addJob_places_job_witness:
  "fst (addJob default_config ''payload''
          \<lparr>opt_jobId = Some ''j1'', opt_priority = Some 5, opt_delay = Some 200, opt_maxRetries = None\<rparr>
          ''1700000000000'' ''k3x9q2m1z'' 1000 1001 empty_store) = ''j1'' \<and>
   delayed (snd (addJob default_config ''payload''
          \<lparr>opt_jobId = Some ''j1'', opt_priority = Some 5, opt_delay = Some 200, opt_maxRetries = None\<rparr>
          ''1700000000000'' ''k3x9q2m1z'' 1000 1001 empty_store)) = [(1201, ''j1'')] \<and>
   priority (snd (addJob default_config ''payload''
          \<lparr>opt_jobId = Some ''j1'', opt_priority = Some 5, opt_delay = Some 200, opt_maxRetries = None\<rparr>
          ''1700000000000'' ''k3x9q2m1z'' 1000 1001 empty_store)) = [] \<and>
   pending (snd (addJob default_config ''payload''
          \<lparr>opt_jobId = Some ''j1'', opt_priority = Some 5, opt_delay = Some 200, opt_maxRetries = None\<rparr>
          ''1700000000000'' ''k3x9q2m1z'' 1000 1001 empty_store)) = []"
  using addJob_places_job [of "\<lparr>opt_jobId = Some ''j1'', opt_priority = Some 5, opt_delay = Some 200, opt_maxRetries = None\<rparr>"
      "''1700000000000''" "''k3x9q2m1z''" default_config "''payload''" 1000 1001 empty_store]
  by (simp add: Let_def js_or_def js_or_str_def empty_store_def zadd_def zrem_def)

subsection \<open>C5: attempts and \<open>maxRetries\<close>\<close>

text \<open>
  C5 says that \<open>attempts \<le> maxRetries\<close> holds for every record after any sequence of
  broker operations. \<open>failJob\<close> increments \<open>attempts\<close> whatever the status of the record:
  a job with \<open>maxRetries = 1\<close> that is added, dequeued and failed has \<open>attempts = 1\<close> and
  status failed, and a further \<open>failJob\<close> for it leaves \<open>attempts = 2\<close>.
\<close>

theorem attempts_bounded_counterexample:
  "map_option attempts (jobs failed_once ''j1'') = Some 1 \<and>
   map_option maxRetries (jobs failed_once ''j1'') = Some 1 \<and>
   map_option attempts
     (jobs (run default_config [FailJob ''j1'' (ErrorObj ''late'') 1030 1031] failed_once) ''j1'')
     = Some 2 \<and>
   map_option maxRetries
     (jobs (run default_config [FailJob ''j1'' (ErrorObj ''late'') 1030 1031] failed_once) ''j1'')
     = Some 1 \<and>
   \<not> attempts_bounded
     (run default_config
        [AddJob ''payload'' single_try ''1700000000000'' ''k3x9q2m1z'' 1000 1000,
         GetNextJob 1010 1010,
         FailJob ''j1'' (ErrorObj ''boom'') 1020 1021,
         FailJob ''j1'' (ErrorObj ''late'') 1030 1031]
        empty_store)"
proof -
  have r: "run default_config
        [AddJob ''payload'' single_try ''1700000000000'' ''k3x9q2m1z'' 1000 1000,
         GetNextJob 1010 1010,
         FailJob ''j1'' (ErrorObj ''boom'') 1020 1021,
         FailJob ''j1'' (ErrorObj ''late'') 1030 1031]
        empty_store
      = run default_config [FailJob ''j1'' (ErrorObj ''late'') 1030 1031] failed_once"
    by (simp add: failed_once_def)
  have a: "jobs (run default_config [FailJob ''j1'' (ErrorObj ''late'') 1030 1031] failed_once) ''j1''
      = Some \<lparr>job_id = ''j1'', job_data = ''payload'', job_priority = 0, attempts = 2,
          maxRetries = 1, createdAt = 1000, status = StFailed, completedAt = None, result = None,
          lastError = Some ''late'', failedAt = Some 1030\<rparr>"
    by (simp add: failed_once_eq ex_defs)
  have "\<not> attempts_bounded
      (run default_config [FailJob ''j1'' (ErrorObj ''late'') 1030 1031] failed_once)"
    unfolding attempts_bounded_def using a by force
  then show ?thesis
    unfolding r using a by (simp add: failed_once_eq)
qed

text \<open>
  C5 as amended: \<open>attempts \<le> maxRetries\<close> holds for every record after any sequence of
  broker operations, started on the empty store, in which no job is created with a
  \<open>maxRetries\<close> below one and \<open>failJob\<close> is never applied, by a caller or by
  \<open>checkStalledJobs\<close>, to a record whose status is already completed or failed.
\<close>

theorem attempts_bounded_guarded:
  assumes "guarded cfg ops empty_store"
  shows "attempts_bounded (run cfg ops empty_store)"
  using retry_inv_run [OF retry_inv_empty assms] by (simp add: retry_inv_def)

theorem attempts_bounded_guarded_witness:
  "guarded default_config recovery_scenario empty_store \<and>
   attempts_bounded (run default_config recovery_scenario empty_store) \<and>
   map_option attempts (jobs (run default_config recovery_scenario empty_store) ''j1'') = Some 2 \<and>
   map_option status (jobs (run default_config recovery_scenario empty_store) ''j1'')
     = Some StCompleted"
  using recovery_scenario_guarded attempts_bounded_guarded [OF recovery_scenario_guarded]
    recovery_scenario_end
  by simp

subsection \<open>C6: the count \<open>processDelayedJobs\<close> returns\<close>

text \<open>
  C6 says that \<open>processDelayedJobs\<close> returns the number of jobs it promoted, an id without
  a record being skipped and not counted. The loop skips such an id, but the value
  returned is the length of the list of due ids. With \<open>ghost\<close> due in \<open>delayed\<close> and no
  record for it, the call promotes nothing, leaves the store as it was and returns 1.
\<close>

theorem processDelayedJobs_counts_skipped:
  "jobs orphan_delayed ''ghost'' = None \<and>
   delayed orphan_delayed = [(5, ''ghost'')] \<and>
   fst (processDelayedJobs 10 orphan_delayed) = 1 \<and>
   snd (processDelayedJobs 10 orphan_delayed) = orphan_delayed"
  by (simp add: orphan_delayed_def empty_store_def processDelayedJobs_def zrangebyscore_def
      getJobData_def)

subsection \<open>C7: arguments of \<open>addJob\<close>\<close>

text \<open>
  C7 says that \<open>addJob\<close> rejects a negative delay, a negative priority and a
  \<open>maxRetries\<close> of zero, and enqueues nothing. \<open>addJob\<close> has no check of its arguments:
  called with delay -5, priority -3 and \<open>maxRetries\<close> 0 it returns the id \<open>j1\<close>, and
  \<open>j1\<close> is in the pending list with a pending record.
\<close>

theorem addJob_invalid_arguments_counterexample:
  "fst (addJob default_config ''payload'' invalid_options ''1700000000000'' ''k3x9q2m1z''
      1000 1000 empty_store) = ''j1'' \<and>
   pending (snd (addJob default_config ''payload'' invalid_options ''1700000000000''
      ''k3x9q2m1z'' 1000 1000 empty_store)) = [''j1''] \<and>
   map_option status (jobs (snd (addJob default_config ''payload'' invalid_options
      ''1700000000000'' ''k3x9q2m1z'' 1000 1000 empty_store)) ''j1'') = Some StPending"
  by (simp add: invalid_options_def ex_defs)

text \<open>
  C7 as amended: \<open>addJob\<close> validates nothing. Every call, also one with a negative delay,
  a negative priority or a \<open>maxRetries\<close> of zero, returns the job id and enqueues the job,
  with the priority given stored on the record. When neither the delay nor the priority
  is positive the id goes to the tail of \<open>pending\<close>; a \<open>maxRetries\<close> of zero is replaced
  by the queue's configured \<open>maxRetries\<close>.
\<close>

theorem addJob_accepts_all:
  "(let jobId = js_or_str (opt_jobId options) (generateJobId ct rt);
        s' = snd (addJob cfg data options ct rt t_created t_exec s)
    in fst (addJob cfg data options ct rt t_created t_exec s) = jobId \<and>
       jobs s' jobId \<noteq> None \<and>
       jobId \<in> queued_ids s' \<and>
       map_option job_priority (jobs s' jobId) = Some (js_or (opt_priority options) 0) \<and>
       (js_or (opt_delay options) 0 \<le> 0 \<and> js_or (opt_priority options) 0 \<le> 0 \<longrightarrow>
          pending s' = pending s @ [jobId] \<and> priority s' = priority s \<and> delayed s' = delayed s) \<and>
       (opt_maxRetries options = Some 0 \<longrightarrow>
          map_option maxRetries (jobs s' jobId) = Some (cfg_maxRetries cfg)))"
  by (simp add: addJob_def Let_def rpush_def queued_ids_def zmembers_zadd js_or_def)

theorem addJob_accepts_all_witness:
  "js_or (opt_delay invalid_options) 0 \<le> 0 \<and> js_or (opt_priority invalid_options) 0 \<le> 0 \<and>
   opt_maxRetries invalid_options = Some 0 \<and>
   pending (snd (addJob default_config ''payload'' invalid_options ''1700000000000'' ''k3x9q2m1z''
      1000 1000 empty_store)) = [''j1''] \<and>
   map_option maxRetries (jobs (snd (addJob default_config ''payload'' invalid_options
      ''1700000000000'' ''k3x9q2m1z'' 1000 1000 empty_store)) ''j1'') = Some 3"
  using addJob_accepts_all [of invalid_options "''1700000000000''" "''k3x9q2m1z''" default_config
      "''payload''" 1000 1000 empty_store]
  by (simp add: Let_def invalid_options_def js_or_def js_or_str_def empty_store_def
      default_config_def make_config_def)

subsection \<open>C8: a failure with retries left\<close>

text \<open>
  C8: when \<open>failJob\<close> is called for an existing record and the incremented \<open>attempts\<close> is
  below \<open>maxRetries\<close>, it returns true; the record is written with status retrying, the
  incremented \<open>attempts\<close>, the error text and the failure time; the id is removed from
  \<open>processing\<close> and inserted into \<open>delayed\<close> with score
  \<open>now + retryDelay * retryBackoff ^ attempts\<close>, the exponent being the incremented
  \<open>attempts\<close>; \<open>stats.processing\<close> is decremented by 1 and nothing else is queued.
\<close>

theorem failJob_schedules_retry:
  assumes "jobs s jobId = Some j" and "job_id j = jobId"
    and "int (attempts j) + 1 < maxRetries j"
  shows "(let r = failJob cfg jobId err tf tr s; s' = snd r;
              score = tr + retryDelay cfg * retryBackoff cfg ^ (attempts j + 1)
          in fst r = True \<and>
             jobs s' jobId = Some (j\<lparr>attempts := attempts j + 1,
                 lastError := Some (error_text err), failedAt := Some tf, status := StRetrying\<rparr>) \<and>
             processing s' = hdel (processing s) jobId \<and>
             jobId \<notin> fst ` set (processing s') \<and>
             delayed s' = zadd (delayed s) score jobId \<and>
             (score, jobId) \<in> set (delayed s') \<and>
             counter (stats s') ''processing'' = counter (stats s) ''processing'' - 1 \<and>
             pending s' = pending s \<and> priority s' = priority s \<and>
             completed s' = completed s \<and> failed s' = failed s)"
  using assms
  by (auto simp: failJob_def retryJob_def getJobData_def Let_def set_zadd counter_hincrby hdel_def)

theorem failJob_schedules_retry_witness:
  "jobs leased ''j1'' \<noteq> None \<and>
   fst (failJob default_config ''j1'' (ErrorObj ''boom'') 1020 1021 leased) = True \<and>
   delayed (snd (failJob default_config ''j1'' (ErrorObj ''boom'') 1020 1021 leased)) = [(3021, ''j1'')] \<and>
   processing (snd (failJob default_config ''j1'' (ErrorObj ''boom'') 1020 1021 leased)) = [] \<and>
   map_option attempts (jobs (snd (failJob default_config ''j1'' (ErrorObj ''boom'') 1020 1021 leased)) ''j1'') = Some 1 \<and>
   map_option status (jobs (snd (failJob default_config ''j1'' (ErrorObj ''boom'') 1020 1021 leased)) ''j1'') = Some StRetrying"
proof -
  let ?j = "\<lparr>job_id = ''j1'', job_data = ''payload'', job_priority = 0, attempts = 0,
       maxRetries = 3, createdAt = 1000, status = StPending, completedAt = None, result = None,
       lastError = None, failedAt = None\<rparr>"
  have a: "jobs leased ''j1'' = Some ?j" by (simp add: leased_eq)
  have b: "job_id ?j = ''j1''" by simp
  have c: "int (attempts ?j) + 1 < maxRetries ?j" by simp
  show ?thesis
    using a failJob_schedules_retry [OF a b c, of default_config "ErrorObj ''boom''" 1020 1021]
    by (simp add: Let_def leased_eq default_config_def make_config_def js_or_def zadd_def zrem_def hdel_def)
qed

subsection \<open>C9: the worker reports the outcome\<close>

text \<open>
  C9: in a pass of the worker loop that obtained a job, the store after the pass is the
  one \<open>completeJob\<close> leaves, called with the job's id and the returned result, when the
  processor returns, and the one \<open>failJob\<close> leaves, called with the job's id and the
  thrown error, when the processor throws. The count of processed jobs rises only in the
  first case, and the events emitted are \<open>job:started\<close> followed by \<open>job:completed\<close> or
  \<open>job:failed\<close>.
\<close>

theorem worker_reports_outcome:
  assumes "getNextJob (at_prio c) (at_pend c) s = (Some job, s1)"
  shows "snd (processLoop_body cfg processorFn c (w, s)) =
           (case processorFn (job_data job) of
              Returned res \<Rightarrow> snd (completeJob (job_id job) res (at_complete c) s1)
            | Threw err \<Rightarrow> snd (failJob cfg (job_id job) err (at_failed c) (at_retry c) s1)) \<and>
         processedCount (fst (processLoop_body cfg processorFn c (w, s))) =
           (case processorFn (job_data job) of
              Returned res \<Rightarrow> processedCount w + 1
            | Threw err \<Rightarrow> processedCount w) \<and>
         emitted (fst (processLoop_body cfg processorFn c (w, s))) =
           emitted w @ [JobStarted job,
             (case processorFn (job_data job) of
                Returned res \<Rightarrow> JobCompleted job
              | Threw err \<Rightarrow> JobFailed job err)]"
  using assms
  by (simp add: processLoop_body_def Let_def split: outcome.splits)

theorem worker_reports_outcome_witness:
  "completed (snd (processLoop_body default_config (\<lambda>d. Returned (Some ''ok'')) clock0
      (idle_worker, one_pending))) = [''j1''] \<and>
   delayed (snd (processLoop_body default_config (\<lambda>d. Threw (ErrorObj ''boom'')) clock0
      (idle_worker, one_pending))) = [(3021, ''j1'')]"
proof -
  let ?j = "\<lparr>job_id = ''j1'', job_data = ''payload'', job_priority = 0, attempts = 0,
       maxRetries = 3, createdAt = 1000, status = StPending, completedAt = None, result = None,
       lastError = None, failedAt = None\<rparr>"
  have g: "getNextJob (at_prio clock0) (at_pend clock0) one_pending = (Some ?j, leased)"
    by (simp add: getNextJob_one_pending) (simp add: one_pending_eq)
  have c: "completed (snd (completeJob ''j1'' (Some ''ok'') 1020 leased)) = [''j1'']"
    by (simp add: leased_eq ex_defs)
  have f: "delayed (snd (failJob default_config ''j1'' (ErrorObj ''boom'') 1020 1021 leased)) = [(3021, ''j1'')]"
    by (simp add: leased_eq ex_defs)
  show ?thesis
    using c f
      worker_reports_outcome [OF g, of default_config "\<lambda>d. Returned (Some ''ok'')" idle_worker]
      worker_reports_outcome [OF g, of default_config "\<lambda>d. Threw (ErrorObj ''boom'')" idle_worker]
    by (simp add: clock0_def)
qed

subsection \<open>C10: terminal operations leave the queues alone\<close>

text \<open>
  C10: \<open>completeJob\<close> and \<open>failJob\<close> never remove an id from \<open>pending\<close>, \<open>priority\<close>
  or \<open>delayed\<close>: an id that is a member of one of them before the call is a member of it
  after the call, whatever the call writes.
\<close>

theorem terminal_ops_keep_queued:
  "(m1 \<in> set (pending s) \<longrightarrow>
      m1 \<in> set (pending (snd (completeJob jobId res now s))) \<and>
      m1 \<in> set (pending (snd (failJob cfg jobId err t_failed t_retry s)))) \<and>
   (m2 \<in> zmembers (priority s) \<longrightarrow>
      m2 \<in> zmembers (priority (snd (completeJob jobId res now s))) \<and>
      m2 \<in> zmembers (priority (snd (failJob cfg jobId err t_failed t_retry s)))) \<and>
   (m3 \<in> zmembers (delayed s) \<longrightarrow>
      m3 \<in> zmembers (delayed (snd (completeJob jobId res now s))) \<and>
      m3 \<in> zmembers (delayed (snd (failJob cfg jobId err t_failed t_retry s))))"
  by (simp add: completeJob_def failJob_def retryJob_def getJobData_def Let_def zmembers_zadd
      split: option.splits)

theorem terminal_ops_keep_queued_witness:
  "''j1'' \<in> set (pending three_queues) \<and> ''j2'' \<in> zmembers (priority three_queues) \<and>
   ''j3'' \<in> zmembers (delayed three_queues) \<and>
   completed (snd (completeJob ''j1'' (Some ''ok'') 1020 three_queues)) = [''j1''] \<and>
   ''j1'' \<in> set (pending (snd (completeJob ''j1'' (Some ''ok'') 1020 three_queues))) \<and>
   ''j2'' \<in> zmembers (priority (snd (failJob default_config ''j1'' (ErrorObj ''boom'') 1020 1021 three_queues))) \<and>
   ''j3'' \<in> zmembers (delayed (snd (failJob default_config ''j1'' (ErrorObj ''boom'') 1020 1021 three_queues)))"
proof -
  have h: "''j1'' \<in> set (pending three_queues)" "''j2'' \<in> zmembers (priority three_queues)"
    "''j3'' \<in> zmembers (delayed three_queues)"
    by (simp_all add: three_queues_eq zmembers_def)
  have c: "completed (snd (completeJob ''j1'' (Some ''ok'') 1020 three_queues)) = [''j1'']"
    by (simp add: three_queues_eq completeJob_def getJobData_def Let_def rpush_def)
  show ?thesis
    using h c terminal_ops_keep_queued [of "''j1''" three_queues "''j1''" "Some ''ok''" 1020
        default_config "ErrorObj ''boom''" 1020 1021 "''j2''" "''j3''"]
    by simp
qed

end
